theory Spec2Isabelle
  imports Complex_Main
begin

section \<open>Number model\<close>

text \<open>
  JavaScript numbers are modelled as \<^typ>\<open>real\<close>: exact arithmetic, no rounding and no
  \<open>NaN\<close> or \<open>Infinity\<close>. Millisecond timestamps (\<open>Date.now()\<close>) are \<^typ>\<open>int\<close>.
  \<open>null\<close> is \<open>None\<close>. A division whose divisor may be zero in the source is named
  where it occurs; theorems that depend on its value exclude the zero divisor by a
  hypothesis.
\<close>

section \<open>Technical indicators\<close>

text \<open>
  Arrays of numbers are lists of reals. The indicators read \<open>data[0]\<close> and
  \<open>data[data.length-1]\<close>; on an empty array JavaScript yields \<open>undefined\<close> there, which
  the number model does not hold, so the statements about indicator values are made
  for non-empty series.
\<close>

text \<open>
  \<open>ema(data, period)\<close>: \<open>r = [data[0]]\<close>, then \<open>r.push(data[i]*k + r[i-1]*(1-k))\<close>.
  \<open>prev\<close> is \<open>r[i-1]\<close>.
\<close>

fun ema_loop :: "real \<Rightarrow> real \<Rightarrow> real list \<Rightarrow> real list" where
  "ema_loop k prev [] = []"
| "ema_loop k prev (x # xs) = (x * k + prev * (1 - k)) # ema_loop k (x * k + prev * (1 - k)) xs"

definition ema :: "real list \<Rightarrow> real \<Rightarrow> real list" where
  "ema data period =
     (case data of [] \<Rightarrow> [] | x # xs \<Rightarrow> x # ema_loop (2 / (period + 1)) x xs)"

text \<open>
  \<open>sma(data, period)\<close>: \<open>null\<close> while \<open>i < period - 1\<close>, then the mean of
  \<open>data[i-period+1 .. i]\<close>.
\<close>

definition sma :: "real list \<Rightarrow> nat \<Rightarrow> real option list" where
  "sma data period =
     map (\<lambda>i. if i + 1 < period then None
              else Some (sum_list (map (\<lambda>j. data ! j) [i + 1 - period ..< i + 1]) / real period))
         [0 ..< length data]"

text \<open>
  \<open>calcRSI(data, period)\<close>. \<open>rsi_seed\<close> is the first loop over \<open>i = 1 .. period\<close>,
  \<open>rsi_smooth\<close> the second over \<open>i = period+1 .. data.length-1\<close>, which carries
  \<open>ag\<close>, \<open>al\<close> and the \<open>series\<close> it pushes to. \<open>rsi_run\<close> is the function body from the
  first loop to the end of the second.
\<close>

record rsi_result =
  rsiValue :: real
  rsiSeries :: "real list"

fun rsi_seed :: "real list \<Rightarrow> nat list \<Rightarrow> real \<times> real \<Rightarrow> real \<times> real" where
  "rsi_seed data [] (gS, lS) = (gS, lS)"
| "rsi_seed data (i # is) (gS, lS) =
     (let d = data ! i - data ! (i - 1)
      in rsi_seed data is (if d \<ge> 0 then (gS + d, lS) else (gS, lS - d)))"

fun rsi_smooth ::
  "real list \<Rightarrow> nat \<Rightarrow> nat list \<Rightarrow> real \<times> real \<times> real list \<Rightarrow> real \<times> real \<times> real list" where
  "rsi_smooth data period [] (ag, al, series) = (ag, al, series)"
| "rsi_smooth data period (i # is) (ag, al, series) =
     (let d = data ! i - data ! (i - 1);
          ag' = (ag * (real period - 1) + max d 0) / real period;
          al' = (al * (real period - 1) + max (- d) 0) / real period
      in rsi_smooth data period is
           (ag', al', series @ [if al' = 0 then 100 else 100 - 100 / (1 + ag' / al')]))"

definition rsi_run :: "real list \<Rightarrow> nat \<Rightarrow> real \<times> real \<times> real list" where
  "rsi_run data period =
     (let (gS, lS) = rsi_seed data [1 ..< period + 1] (0, 0)
      in rsi_smooth data period [period + 1 ..< length data]
           (gS / real period, lS / real period, replicate (period + 1) 50))"

definition calcRSI :: "real list \<Rightarrow> nat \<Rightarrow> rsi_result" where
  "calcRSI data period =
     (if length data < period + 1 then \<lparr> rsiValue = 50, rsiSeries = [] \<rparr>
      else (let (ag, al, series) = rsi_run data period
            in \<lparr> rsiValue = last series, rsiSeries = series \<rparr>))"

text \<open>\<open>calcMACD(data)\<close>; \<open>e12\<close>, \<open>e26\<close>, \<open>line\<close>, \<open>sig\<close> and \<open>hist\<close> have the length of \<open>data\<close>.\<close>

record macd_result =
  line :: real
  signal :: real
  histogram :: real
  histSeries :: "real list"

definition calcMACD :: "real list \<Rightarrow> macd_result" where
  "calcMACD data =
     (let e12 = ema data 12;
          e26 = ema data 26;
          lineS = map (\<lambda>i. e12 ! i - e26 ! i) [0 ..< length e12];
          sig = ema lineS 9;
          hist = map (\<lambda>i. lineS ! i - sig ! i) [0 ..< length lineS]
      in \<lparr> line = last lineS, signal = last sig, histogram = last hist, histSeries = hist \<rparr>)"

text \<open>
  \<open>calcBollinger(data, period, mult)\<close>. \<open>js_or a b\<close> is \<open>a || b\<close> for \<open>a\<close> a number or
  \<open>null\<close>: \<open>null\<close> and 0 are falsy. \<open>bb_std\<close> is \<open>Math.sqrt(v/period)\<close> of the inner loop.
  \<open>bbWidth\<close> divides by \<open>lm\<close>, which the source does not guard.
\<close>

record bollinger =
  upper :: "real option list"
  mid :: "real option list"
  lower :: "real option list"
  bbWidth :: real
  pctB :: real
  lastUpper :: real
  lastLower :: real
  lastMid :: real

definition js_or :: "real option \<Rightarrow> real \<Rightarrow> real" where
  "js_or a b = (case a of None \<Rightarrow> b | Some v \<Rightarrow> if v = 0 then b else v)"

definition bb_std :: "real list \<Rightarrow> nat \<Rightarrow> nat \<Rightarrow> real \<Rightarrow> real" where
  "bb_std data period i m =
     sqrt (sum_list (map (\<lambda>j. (data ! j - m) ^ 2) [i + 1 - period ..< i + 1]) / real period)"

definition calcBollinger :: "real list \<Rightarrow> nat \<Rightarrow> real \<Rightarrow> bollinger" where
  "calcBollinger data period mult =
     (let midS = sma data period;
          upperS = map (\<lambda>i. case midS ! i of None \<Rightarrow> None
                            | Some m \<Rightarrow> Some (m + mult * bb_std data period i m)) [0 ..< length data];
          lowerS = map (\<lambda>i. case midS ! i of None \<Rightarrow> None
                            | Some m \<Rightarrow> Some (m - mult * bb_std data period i m)) [0 ..< length data];
          lu = js_or (last upperS) (last data * 1.02);
          ll = js_or (last lowerS) (last data * 0.98);
          lm = js_or (last midS) (last data)
      in \<lparr> upper = upperS, mid = midS, lower = lowerS,
           bbWidth = (lu - ll) / lm,
           pctB = (last data - ll) / (if lu - ll = 0 then 1 else lu - ll),
           lastUpper = lu, lastLower = ll, lastMid = lm \<rparr>)"

text \<open>
  \<open>calcStochastic(highs, lows, closes, kP, dP)\<close>. The inner loop folds \<open>Math.max\<close> from
  \<open>-Infinity\<close> and \<open>Math.min\<close> from \<open>Infinity\<close> over the window \<open>i-kP+1 .. i\<close>, which has
  \<open>kP\<close> elements; \<open>window_max\<close> and \<open>window_min\<close> fold from the first element of the
  window instead. \<open>kV\<close> holds numbers only, so \<open>kV.map(v => v ?? 50)\<close> is \<open>kV\<close>.
\<close>

record stochastic =
  stochK :: real
  stochD :: real

definition window_max :: "real list \<Rightarrow> real" where
  "window_max w = fold max (tl w) (hd w)"

definition window_min :: "real list \<Rightarrow> real" where
  "window_min w = fold min (tl w) (hd w)"

definition calcStochastic :: "real list \<Rightarrow> real list \<Rightarrow> real list \<Rightarrow> nat \<Rightarrow> nat \<Rightarrow> stochastic" where
  "calcStochastic highs lows closes kP dP =
     (let kV = map (\<lambda>i. if i + 1 < kP then 50
                        else (let hh = window_max (map (\<lambda>j. highs ! j) [i + 1 - kP ..< i + 1]);
                                  ll = window_min (map (\<lambda>j. lows ! j) [i + 1 - kP ..< i + 1])
                              in if hh = ll then 50 else (closes ! i - ll) / (hh - ll) * 100))
                  [0 ..< length closes];
          dV = sma kV dP
      in \<lparr> stochK = last kV, stochD = (case last dV of None \<Rightarrow> 50 | Some v \<Rightarrow> v) \<rparr>)"

text \<open>\<open>calcATR(highs, lows, closes, period)\<close>.\<close>

record atr_result =
  atrValue :: real
  atrSeries :: "real list"

definition trueRanges :: "real list \<Rightarrow> real list \<Rightarrow> real list \<Rightarrow> real list" where
  "trueRanges highs lows closes =
     (highs ! 0 - lows ! 0) #
     map (\<lambda>i. max (max (highs ! i - lows ! i) \<bar>highs ! i - closes ! (i - 1)\<bar>)
                   \<bar>lows ! i - closes ! (i - 1)\<bar>)
         [1 ..< length closes]"

definition calcATR :: "real list \<Rightarrow> real list \<Rightarrow> real list \<Rightarrow> real \<Rightarrow> atr_result" where
  "calcATR highs lows closes period =
     (let atrS = ema (trueRanges highs lows closes) period
      in \<lparr> atrValue = last atrS, atrSeries = atrS \<rparr>)"

section \<open>Prediction engine\<close>

text \<open>
  The local variables of \<open>computePrediction(price, hCloses, dCloses, hHighs, hLows)\<close>, each
  as a function of the arguments it depends on. \<open>curPrice\<close> is the parameter \<open>price\<close>. The
  divisions by \<open>price\<close>, by \<open>dCloses.length\<close> and by \<open>dailyAvg\<close> are not guarded in the
  source.
\<close>

datatype direction = Bullish | Bearish | Neutral

record signal_reading =
  sigValue :: real
  direction :: direction
  strength :: real

record prediction =
  oneMinute :: real
  oneDay :: real
  rsi :: real
  macd :: macd_result
  bb :: bollinger
  stoch :: stochastic
  atr :: real
  atrPct :: real
  ema8Last :: real
  ema21Last :: real
  ema50Last :: real
  signals :: "(string \<times> signal_reading) list"
  overall :: direction

definition cp_emaSignal :: "real \<Rightarrow> real list \<Rightarrow> real" where
  "cp_emaSignal curPrice hCloses =
     (let ema8 = ema hCloses 8; ema21 = ema hCloses 21; ema50 = ema hCloses 50;
          emaCross821 = (last ema8 - last ema21) / curPrice;
          emaCross2150 = (last ema21 - last ema50) / curPrice
      in emaCross821 * 0.6 + emaCross2150 * 0.4)"

definition cp_rsiSignal :: "real list \<Rightarrow> real" where
  "cp_rsiSignal hCloses =
     (let v = rsiValue (calcRSI hCloses 14)
      in if v > 75 then - (v - 70) / 100
         else if v > 60 then - (v - 60) / 200
         else if v < 25 then (30 - v) / 100
         else if v < 40 then (40 - v) / 200
         else 0)"

definition cp_macdSignal :: "real \<Rightarrow> real list \<Rightarrow> real" where
  "cp_macdSignal curPrice hCloses = histogram (calcMACD hCloses) / curPrice"

definition cp_bbSignal :: "real list \<Rightarrow> real" where
  "cp_bbSignal hCloses =
     (let b = pctB (calcBollinger hCloses 20 2)
      in if b > 0.95 then - (b - 0.8) * 0.5
         else if b < 0.05 then (0.2 - b) * 0.5
         else (0.5 - b) * 0.1)"

definition cp_stochSignal :: "real list \<Rightarrow> real list \<Rightarrow> real list \<Rightarrow> real" where
  "cp_stochSignal hHighs hLows hCloses =
     (let st = calcStochastic hHighs hLows hCloses 14 3
      in if stochK st > 80 \<and> stochK st > stochD st then - 0.02
         else if stochK st < 20 \<and> stochK st < stochD st then 0.02
         else 0)"

definition cp_atrPct :: "real \<Rightarrow> real list \<Rightarrow> real list \<Rightarrow> real list \<Rightarrow> real" where
  "cp_atrPct curPrice hHighs hLows hCloses = atrValue (calcATR hHighs hLows hCloses 14) / curPrice"

definition cp_dailyAvg :: "real list \<Rightarrow> real" where
  "cp_dailyAvg dCloses = fold (\<lambda>v s. s + v) dCloses 0 / real (length dCloses)"

definition cp_meanRevSignal :: "real \<Rightarrow> real list \<Rightarrow> real" where
  "cp_meanRevSignal curPrice dCloses = (cp_dailyAvg dCloses - curPrice) / cp_dailyAvg dCloses"

definition cp_mRaw :: "real \<Rightarrow> real list \<Rightarrow> real list \<Rightarrow> real list \<Rightarrow> real list \<Rightarrow> real" where
  "cp_mRaw curPrice hCloses dCloses hHighs hLows =
     cp_emaSignal curPrice hCloses * 0.30 + cp_rsiSignal hCloses * 0.10
     + cp_macdSignal curPrice hCloses * 0.25 + cp_bbSignal hCloses * 0.15
     + cp_stochSignal hHighs hLows hCloses * 0.10 + cp_meanRevSignal curPrice dCloses * 0.05"

definition cp_dRaw :: "real \<Rightarrow> real list \<Rightarrow> real list \<Rightarrow> real list \<Rightarrow> real list \<Rightarrow> real" where
  "cp_dRaw curPrice hCloses dCloses hHighs hLows =
     cp_emaSignal curPrice hCloses * 0.20 + cp_rsiSignal hCloses * 0.15
     + cp_macdSignal curPrice hCloses * 0.15 + cp_bbSignal hCloses * 0.15
     + cp_stochSignal hHighs hLows hCloses * 0.10 + cp_meanRevSignal curPrice dCloses * 0.20"

text \<open>The \<open>signals\<close> object, in the order of its keys, which is the order of \<open>Object.values\<close>.\<close>

definition cp_signals ::
  "real \<Rightarrow> real list \<Rightarrow> real list \<Rightarrow> real list \<Rightarrow> real list \<Rightarrow> (string \<times> signal_reading) list" where
  "cp_signals curPrice hCloses dCloses hHighs hLows =
     (let emaSignal = cp_emaSignal curPrice hCloses;
          rsiSignal = cp_rsiSignal hCloses;
          macdSignal = cp_macdSignal curPrice hCloses;
          macdHist = histogram (calcMACD hCloses);
          bbSignal = cp_bbSignal hCloses;
          stochSignal = cp_stochSignal hHighs hLows hCloses;
          atrPctV = cp_atrPct curPrice hHighs hLows hCloses;
          meanRevSignal = cp_meanRevSignal curPrice dCloses
      in [(''EMA'', \<lparr> sigValue = emaSignal,
                      direction = (if emaSignal \<ge> 0 then Bullish else Bearish),
                      strength = min (\<bar>emaSignal\<bar> * 500) 100 \<rparr>),
          (''RSI'', \<lparr> sigValue = rsiValue (calcRSI hCloses 14),
                      direction = (if rsiSignal > 0 then Bullish else if rsiSignal < 0 then Bearish else Neutral),
                      strength = min (\<bar>rsiSignal\<bar> * 400) 100 \<rparr>),
          (''MACD'', \<lparr> sigValue = macdHist,
                       direction = (if macdHist \<ge> 0 then Bullish else Bearish),
                       strength = min (\<bar>macdSignal\<bar> * 2000) 100 \<rparr>),
          (''BB'', \<lparr> sigValue = pctB (calcBollinger hCloses 20 2),
                     direction = (if bbSignal > 0 then Bullish else if bbSignal < 0 then Bearish else Neutral),
                     strength = min (\<bar>bbSignal\<bar> * 300) 100 \<rparr>),
          (''Stoch'', \<lparr> sigValue = stochK (calcStochastic hHighs hLows hCloses 14 3),
                        direction = (if stochSignal > 0 then Bullish else if stochSignal < 0 then Bearish else Neutral),
                        strength = \<bar>stochSignal\<bar> * 2500 \<rparr>),
          (''ATR'', \<lparr> sigValue = atrValue (calcATR hHighs hLows hCloses 14),
                      direction = Neutral,
                      strength = min (atrPctV * 1000) 100 \<rparr>),
          (''MeanRev'', \<lparr> sigValue = meanRevSignal,
                          direction = (if meanRevSignal > 0 then Bullish else Bearish),
                          strength = min (\<bar>meanRevSignal\<bar> * 300) 100 \<rparr>)])"

text \<open>\<open>bull\<close>, \<open>bear\<close> and \<open>overall\<close>, from the values of a \<open>signals\<close> object.\<close>

definition cp_overall :: "(string \<times> signal_reading) list \<Rightarrow> direction" where
  "cp_overall sigs =
     (let bull = length (filter (\<lambda>s. direction s = Bullish) (map snd sigs));
          bear = length (filter (\<lambda>s. direction s = Bearish) (map snd sigs))
      in if bull > bear then Bullish else if bear > bull then Bearish else Neutral)"

definition computePrediction ::
  "real \<Rightarrow> real list \<Rightarrow> real list \<Rightarrow> real list \<Rightarrow> real list \<Rightarrow> prediction" where
  "computePrediction curPrice hCloses dCloses hHighs hLows =
     \<lparr> oneMinute = curPrice * (1 + cp_mRaw curPrice hCloses dCloses hHighs hLows
                                  * min (cp_atrPct curPrice hHighs hLows hCloses * 8) 0.03),
       oneDay = curPrice * (1 + cp_dRaw curPrice hCloses dCloses hHighs hLows
                               * min (cp_atrPct curPrice hHighs hLows hCloses * 80) 0.15),
       rsi = rsiValue (calcRSI hCloses 14),
       macd = calcMACD hCloses,
       bb = calcBollinger hCloses 20 2,
       stoch = calcStochastic hHighs hLows hCloses 14 3,
       atr = atrValue (calcATR hHighs hLows hCloses 14),
       atrPct = cp_atrPct curPrice hHighs hLows hCloses,
       ema8Last = last (ema hCloses 8),
       ema21Last = last (ema hCloses 21),
       ema50Last = last (ema hCloses 50),
       signals = cp_signals curPrice hCloses dCloses hHighs hLows,
       overall = cp_overall (cp_signals curPrice hCloses dCloses hHighs hLows) \<rparr>"

text \<open>\<open>signals[name].direction\<close> of a returned prediction.\<close>

definition directionOf :: "prediction \<Rightarrow> string \<Rightarrow> direction option" where
  "directionOf p name = map_option direction (map_of (signals p) name)"

text \<open>
  The rule of the specification for a direction: the sign of the signal, bullish when it
  is strictly positive, bearish when strictly negative, neutral at exactly 0. It is
  compared with the directions \<open>cp_signals\<close> records.
\<close>

definition spec_signDirection :: "real \<Rightarrow> direction" where
  "spec_signDirection s = (if s > 0 then Bullish else if s < 0 then Bearish else Neutral)"

section \<open>Prediction ledger (History System)\<close>

text \<open>One element of the \<open>history\<close> array, as pushed by \<open>recordPrediction\<close>.\<close>

record entry =
  ts :: int
  coin :: string
  price :: real
  pred1m :: real
  pred1d :: real
  actual1m :: "real option"
  actual1mTs :: "int option"
  actual1d :: "real option"
  actual1dTs :: "int option"

definition MAX_HISTORY :: nat where
  "MAX_HISTORY = 100"

text \<open>The ids of the \<open>COINS\<close> table (the other columns are display data).\<close>

definition COINS :: "string list" where
  "COINS = [''BTC'', ''ETH'', ''SOL'']"

text \<open>\<open>xs.slice(-n)\<close>: the last \<open>n\<close> elements, all of them when there are fewer.\<close>

definition slice_last :: "nat \<Rightarrow> 'a list \<Rightarrow> 'a list" where
  "slice_last n xs = drop (length xs - n) xs"

text \<open>The object literal pushed by \<open>recordPrediction\<close>.\<close>

definition new_entry :: "int \<Rightarrow> string \<Rightarrow> real \<Rightarrow> real \<Rightarrow> real \<Rightarrow> entry" where
  "new_entry now coinId pr p1m p1d =
     \<lparr> ts = now, coin = coinId, price = pr, pred1m = p1m, pred1d = p1d,
       actual1m = None, actual1mTs = None, actual1d = None, actual1dTs = None \<rparr>"

text \<open>
  \<open>recordPrediction(coinId, price, pred1m, pred1d)\<close> on the global \<open>history\<close>, which is
  passed in and returned. \<open>now\<close> is the clock; the two reads of \<open>Date.now()\<close> in the body
  are taken at the same instant. \<open>last\<close> is \<open>[...history].reverse().find(...)\<close>.
\<close>

definition recordPrediction ::
  "int \<Rightarrow> entry list \<Rightarrow> string \<Rightarrow> real \<Rightarrow> real \<Rightarrow> real \<Rightarrow> entry list" where
  "recordPrediction now history coinId pr p1m p1d =
     (case List.find (\<lambda>h. coin h = coinId) (rev history) of
        Some lst \<Rightarrow>
          if now - ts lst < 55000 then history
          else (let h' = history @ [new_entry now coinId pr p1m p1d]
                in if length h' > MAX_HISTORY then slice_last MAX_HISTORY h' else h')
      | None \<Rightarrow>
          (let h' = history @ [new_entry now coinId pr p1m p1d]
           in if length h' > MAX_HISTORY then slice_last MAX_HISTORY h' else h'))"

text \<open>
  \<open>coinData[coin.id]?.ticker\<close> after \<open>COINS.find(c => c.id === entry.coin)\<close>: the parsed
  \<open>lastPrice\<close> of the ticker held for a listed coin, \<open>None\<close> when the coin is not listed
  or no ticker is held for it. \<open>coinData\<close> maps a coin id to that price.
\<close>

definition tickerPrice :: "(string \<rightharpoonup> real) \<Rightarrow> string \<Rightarrow> real option" where
  "tickerPrice coinData c = (if c \<in> set COINS then coinData c else None)"

text \<open>The body of the loop of \<open>resolveHistory\<close> for one entry: the 1m block, then the 1d block.\<close>

definition resolve1m :: "int \<Rightarrow> (string \<rightharpoonup> real) \<Rightarrow> entry \<Rightarrow> entry" where
  "resolve1m now coinData e =
     (if actual1m e = None \<and> now - ts e \<ge> 60000 then
        (case tickerPrice coinData (coin e) of
           Some p \<Rightarrow> e\<lparr>actual1m := Some p, actual1mTs := Some now\<rparr>
         | None \<Rightarrow> e)
      else e)"

definition resolve1d :: "int \<Rightarrow> (string \<rightharpoonup> real) \<Rightarrow> entry \<Rightarrow> entry" where
  "resolve1d now coinData e =
     (if actual1d e = None \<and> now - ts e \<ge> 86400000 then
        (case tickerPrice coinData (coin e) of
           Some p \<Rightarrow> e\<lparr>actual1d := Some p, actual1dTs := Some now\<rparr>
         | None \<Rightarrow> e)
      else e)"

definition resolveEntry :: "int \<Rightarrow> (string \<rightharpoonup> real) \<Rightarrow> entry \<Rightarrow> entry" where
  "resolveEntry now coinData e = resolve1d now coinData (resolve1m now coinData e)"

text \<open>\<open>resolveHistory()\<close>: \<open>for (const entry of history)\<close>, each entry updated in place.\<close>

fun resolveHistory :: "int \<Rightarrow> (string \<rightharpoonup> real) \<Rightarrow> entry list \<Rightarrow> entry list" where
  "resolveHistory now coinData [] = []"
| "resolveHistory now coinData (e # es) =
     resolveEntry now coinData e # resolveHistory now coinData es"

text \<open>A run of \<open>resolveHistory\<close> calls, each with its own clock reading and ticker data.\<close>

fun resolveCalls :: "(int \<times> (string \<rightharpoonup> real)) list \<Rightarrow> entry list \<Rightarrow> entry list" where
  "resolveCalls [] history = history"
| "resolveCalls ((now, coinData) # cs) history = resolveCalls cs (resolveHistory now coinData history)"

text \<open>
  \<open>getHistoryStats(filter)\<close>. \<open>dirOf\<close> is \<open>x >= price ? 1 : -1\<close>. The two \<open>for\<close> loops
  differ only in the fields they read, so one loop takes the forecast and the actual as
  selectors; it runs over entries whose actual is not \<open>null\<close>, and \<open>toNumber\<close> is what
  JavaScript arithmetic makes of the field (\<open>null\<close> would count as 0). The error term
  divides by \<open>h.price\<close>, which the source does not guard.
\<close>

record stats =
  total :: nat
  resolved1m :: nat
  resolved1d :: nat
  accuracy1m :: "real option"
  accuracy1d :: "real option"
  avgErr1m :: "real option"
  avgErr1d :: "real option"

definition dirOf :: "real \<Rightarrow> real \<Rightarrow> int" where
  "dirOf x p = (if x \<ge> p then 1 else - 1)"

definition toNumber :: "real option \<Rightarrow> real" where
  "toNumber v = (case v of None \<Rightarrow> 0 | Some x \<Rightarrow> x)"

fun statsLoop ::
  "(entry \<Rightarrow> real) \<Rightarrow> (entry \<Rightarrow> real option) \<Rightarrow> entry list \<Rightarrow> nat \<times> real \<Rightarrow> nat \<times> real" where
  "statsLoop pred actual [] (hit, totalErr) = (hit, totalErr)"
| "statsLoop pred actual (h # hs) (hit, totalErr) =
     statsLoop pred actual hs
       ((if dirOf (pred h) (price h) = dirOf (toNumber (actual h)) (price h) then hit + 1 else hit),
        totalErr + \<bar>pred h - toNumber (actual h)\<bar> / price h * 100)"

definition getHistoryStats :: "entry list \<Rightarrow> string \<Rightarrow> stats" where
  "getHistoryStats history flt =
     (let items = (if flt = ''ALL'' then history else filter (\<lambda>h. coin h = flt) history);
          res1m = filter (\<lambda>h. actual1m h \<noteq> None) items;
          res1d = filter (\<lambda>h. actual1d h \<noteq> None) items;
          (hit1m, totalErr1m) = statsLoop pred1m actual1m res1m (0, 0);
          (hit1d, totalErr1d) = statsLoop pred1d actual1d res1d (0, 0)
      in \<lparr> total = length items,
           resolved1m = length res1m,
           resolved1d = length res1d,
           accuracy1m = (if length res1m > 0 then Some (real hit1m / real (length res1m) * 100) else None),
           accuracy1d = (if length res1d > 0 then Some (real hit1d / real (length res1d) * 100) else None),
           avgErr1m = (if length res1m > 0 then Some (totalErr1m / real (length res1m)) else None),
           avgErr1d = (if length res1d > 0 then Some (totalErr1d / real (length res1d)) else None) \<rparr>)"

section \<open>Properties of the indicators\<close>

subsection \<open>\<open>calcBollinger\<close> below \<open>period\<close> points\<close>

lemma sma_nth_short:
  "i < length data \<Longrightarrow> length data < period \<Longrightarrow> sma data period ! i = None"
  by (simp add: sma_def)

lemma last_map_upt:
  "0 < n \<Longrightarrow> last (map f [0 ..< n]) = f (n - 1)"
  by (simp add: last_map)

lemma calcBollinger_short_fields:
  assumes "data \<noteq> []" and "length data < period"
  shows "lastUpper (calcBollinger data period mult) = last data * 1.02"
    and "lastLower (calcBollinger data period mult) = last data * 0.98"
    and "lastMid (calcBollinger data period mult) = last data"
proof -
  from assms have n: "0 < length data" by simp
  have m: "sma data period ! (length data - 1) = None"
    using assms n by (simp add: sma_nth_short)
  have "sma data period \<noteq> []"
    using n by (simp add: sma_def)
  then have "last (sma data period) = sma data period ! (length data - 1)"
    by (simp add: last_conv_nth sma_def)
  with m have lm: "last (sma data period) = None" by simp
  show "lastUpper (calcBollinger data period mult) = last data * 1.02"
    using n m by (simp add: calcBollinger_def Let_def last_map_upt js_or_def)
  show "lastLower (calcBollinger data period mult) = last data * 0.98"
    using n m by (simp add: calcBollinger_def Let_def last_map_upt js_or_def)
  show "lastMid (calcBollinger data period mult) = last data"
    using lm by (simp add: calcBollinger_def Let_def js_or_def)
qed

lemma calcBollinger_pctB_bbWidth:
  "pctB (calcBollinger data period mult) =
     (last data - lastLower (calcBollinger data period mult)) /
     (if lastUpper (calcBollinger data period mult) - lastLower (calcBollinger data period mult) = 0
      then 1
      else lastUpper (calcBollinger data period mult) - lastLower (calcBollinger data period mult))"
  "bbWidth (calcBollinger data period mult) =
     (lastUpper (calcBollinger data period mult) - lastLower (calcBollinger data period mult)) /
     lastMid (calcBollinger data period mult)"
  by (simp_all add: calcBollinger_def Let_def)

text \<open>
  C3, as the code has it. For a non-empty series with fewer than \<open>period\<close> points the last
  upper band is the last price times 1.02 and the last lower band the last price times
  0.98, that is 2 percent either way. \<open>pctB\<close> and \<open>bbWidth\<close> are then quotients over these
  two numbers: \<open>pctB\<close> is the last price minus the lower band over the band gap, with 1
  in place of a gap of 0, and, when the last price is not 0, \<open>bbWidth\<close> is the band gap
  over the last price.
\<close>

theorem calcBollinger_short_fallback:
  assumes "data \<noteq> []" and "length data < period"
  shows "lastUpper (calcBollinger data period mult) = last data * 1.02 \<and>
         lastLower (calcBollinger data period mult) = last data * 0.98 \<and>
         pctB (calcBollinger data period mult) =
           (last data - lastLower (calcBollinger data period mult)) /
           (if lastUpper (calcBollinger data period mult)
                 - lastLower (calcBollinger data period mult) = 0
            then 1
            else lastUpper (calcBollinger data period mult)
                 - lastLower (calcBollinger data period mult)) \<and>
         (last data \<noteq> 0 \<longrightarrow>
            bbWidth (calcBollinger data period mult) =
              (lastUpper (calcBollinger data period mult)
                 - lastLower (calcBollinger data period mult)) / last data)"
proof -
  note f = calcBollinger_short_fields [OF assms, of mult]
  have w: "bbWidth (calcBollinger data period mult) =
      (lastUpper (calcBollinger data period mult)
         - lastLower (calcBollinger data period mult)) / last data"
    by (simp add: calcBollinger_pctB_bbWidth(2) f(3))
  from f(1) f(2) calcBollinger_pctB_bbWidth(1) [of data period mult] w
  show ?thesis by blast
qed

theorem calcBollinger_short_fallback_witness:
  "[90, 100] \<noteq> ([] :: real list) \<and> length [90, 100 :: real] < 20 \<and>
   last [90, 100 :: real] \<noteq> 0 \<and>
   lastUpper (calcBollinger [90, 100] 20 2) = 102 \<and>
   lastLower (calcBollinger [90, 100] 20 2) = 98 \<and>
   pctB (calcBollinger [90, 100] 20 2) = (100 - 98) / (102 - 98) \<and>
   bbWidth (calcBollinger [90, 100] 20 2) = (102 - 98) / 100"
  using calcBollinger_short_fallback [of "[90, 100]" 20 2] by simp

text \<open>
  C3, as stated, fails. The fallback bands are not the last price raised by 0.2 percent and lowered by 0.5
  percent: for the one-point series of price 100 they are 102 and 98, not 100.2 and
  99.5.
\<close>

theorem calcBollinger_short_counterexample:
  "length [100 :: real] < 20 \<and>
   lastUpper (calcBollinger [100] 20 2) = 102 \<and>
   lastUpper (calcBollinger [100] 20 2) \<noteq> 100 * (1 + 0.002) \<and>
   lastLower (calcBollinger [100] 20 2) = 98 \<and>
   lastLower (calcBollinger [100] 20 2) \<noteq> 100 * (1 - 0.005)"
  by (simp add: calcBollinger_def sma_def js_or_def Let_def)

subsection \<open>\<open>calcRSI\<close> and a zero average loss\<close>

lemma rsi_smooth_snoc:
  "rsi_smooth data period (js @ [i]) st = rsi_smooth data period [i] (rsi_smooth data period js st)"
proof (induction js arbitrary: st)
  case Nil
  then show ?case by (cases st) simp
next
  case (Cons j js)
  obtain ag al series where st: "st = (ag, al, series)" by (cases st)
  show ?case unfolding st by (simp add: Let_def Cons.IH)
qed

lemma rsi_smooth_single_last:
  assumes "rsi_smooth data period [i] st = (ag, al, series)"
  shows "last series = (if al = 0 then 100 else 100 - 100 / (1 + ag / al))"
proof -
  obtain ag0 al0 series0 where st: "st = (ag0, al0, series0)" by (cases st)
  from assms show ?thesis unfolding st by (auto simp add: Let_def)
qed

lemma calcRSI_boundary:
  assumes "length data = period + 1"
  shows "rsiValue (calcRSI data period) = 50"
    and "rsiSeries (calcRSI data period) = replicate (period + 1) 50"
  using assms by (simp_all add: calcRSI_def rsi_run_def split: prod.splits)

text \<open>
  From \<open>period + 2\<close> points on, the value is the one the second loop pushed last: 100 when
  the smoothed average loss is 0, and \<open>100 - 100/(1 + ag/al)\<close> otherwise.
\<close>

lemma calcRSI_from_smoothed:
  assumes len: "period + 2 \<le> length data"
    and run: "rsi_run data period = (ag, al, series)"
  shows "rsiValue (calcRSI data period) = (if al = 0 then 100 else 100 - 100 / (1 + ag / al))"
proof -
  from len obtain n where n: "length data = Suc n" and pn: "period + 1 \<le> n"
    by (cases "length data") auto
  have idx: "[period + 1 ..< length data] = [period + 1 ..< length data - 1] @ [length data - 1]"
    unfolding n using pn by simp
  obtain gS lS where seed: "rsi_seed data [1 ..< period + 1] (0, 0) = (gS, lS)"
    by (cases "rsi_seed data [1 ..< period + 1] (0, 0)")
  have "rsi_run data period =
      rsi_smooth data period [length data - 1]
        (rsi_smooth data period [period + 1 ..< length data - 1]
           (gS / real period, lS / real period, replicate (period + 1) 50))"
    unfolding rsi_run_def seed by (subst idx) (simp add: rsi_smooth_snoc)
  with run have "last series = (if al = 0 then 100 else 100 - 100 / (1 + ag / al))"
    by (simp add: rsi_smooth_single_last)
  moreover from len run have "rsiValue (calcRSI data period) = last series"
    by (simp add: calcRSI_def)
  ultimately show ?thesis by simp
qed

lemma rsi_seed_no_loss:
  "\<forall>i \<in> set js. data ! (i - 1) \<le> data ! i \<Longrightarrow> snd (rsi_seed data js (gS, lS)) = lS"
  by (induction js arbitrary: gS) (simp_all add: Let_def)

lemma rsi_smooth_no_loss:
  "0 < period \<Longrightarrow> \<forall>i \<in> set js. data ! (i - 1) \<le> data ! i \<Longrightarrow>
   fst (snd (rsi_smooth data period js (ag, 0, series))) = 0"
  by (induction js arbitrary: ag series) (simp_all add: Let_def)

text \<open>
  A series of at least \<open>period + 2\<close> points that never falls has average loss 0 and
  value 100.
\<close>

lemma calcRSI_never_falling:
  assumes per: "0 < period"
    and len: "period + 2 \<le> length data"
    and up: "\<forall>i. 0 < i \<and> i < length data \<longrightarrow> data ! (i - 1) \<le> data ! i"
  shows "rsiValue (calcRSI data period) = 100"
proof -
  obtain gS lS where seed: "rsi_seed data [1 ..< period + 1] (0, 0) = (gS, lS)"
    by (cases "rsi_seed data [1 ..< period + 1] (0, 0)")
  have "\<forall>i \<in> set [1 ..< period + 1]. data ! (i - 1) \<le> data ! i"
    using up len by auto
  from rsi_seed_no_loss [OF this, of 0 0] seed have lS: "lS = 0" by simp
  have later: "\<forall>i \<in> set [period + 1 ..< length data]. data ! (i - 1) \<le> data ! i"
    using up by auto
  obtain ag al series where run: "rsi_run data period = (ag, al, series)"
    by (cases "rsi_run data period")
  have "fst (snd (rsi_run data period)) = 0"
    unfolding rsi_run_def seed lS using rsi_smooth_no_loss [OF per later] by simp
  with run have "al = 0" by simp
  with calcRSI_from_smoothed [OF len run] show ?thesis by simp
qed

text \<open>
  C4 at its boundary. The series 1, 2, ..., 15 has \<open>period + 1 = 15\<close> points and never
  falls, so its average loss is 0; the second loop of \<open>calcRSI\<close> has no index to run over,
  nothing is pushed after the fifteen placeholders, and the value returned is 50, not 100.
\<close>

theorem calcRSI_fifteen_points:
  "length [1, 2, 3, 4, 5, 6, 7, 8, 9, 10, 11, 12, 13, 14, 15 :: real] = 14 + 1 \<and>
   fst (snd (rsi_run [1, 2, 3, 4, 5, 6, 7, 8, 9, 10, 11, 12, 13, 14, 15] 14)) = 0 \<and>
   rsiValue (calcRSI [1, 2, 3, 4, 5, 6, 7, 8, 9, 10, 11, 12, 13, 14, 15] 14) = 50 \<and>
   rsiValue (calcRSI [1, 2, 3, 4, 5, 6, 7, 8, 9, 10, 11, 12, 13, 14, 15, 16] 14) = 100"
  by code_simp

section \<open>Properties of the prediction engine\<close>

lemma cp_bbSignal_short:
  assumes "hCloses \<noteq> []" and "length hCloses < 20" and "last hCloses \<noteq> 0"
  shows "cp_bbSignal hCloses = 0"
proof -
  note f = calcBollinger_short_fields [OF assms(1,2), of 2]
  have "pctB (calcBollinger hCloses 20 2) = 0.5"
    unfolding calcBollinger_pctB_bbWidth f using assms(3) by (simp add: field_simps)
  then show ?thesis by (simp add: cp_bbSignal_def)
qed

subsection \<open>Consensus\<close>

lemma count_list_map_filter:
  "count_list (map f xs) v = length (filter (\<lambda>x. f x = v) xs)"
  by (induction xs) simp_all

lemma cp_signals_keys:
  "map fst (cp_signals curPrice hCloses dCloses hHighs hLows) =
     [''EMA'', ''RSI'', ''MACD'', ''BB'', ''Stoch'', ''ATR'', ''MeanRev'']"
  by (simp add: cp_signals_def Let_def)

lemma cp_overall_count:
  "cp_overall sigs =
     (if count_list (map (\<lambda>s. direction (snd s)) sigs) Bearish
           < count_list (map (\<lambda>s. direction (snd s)) sigs) Bullish then Bullish
      else if count_list (map (\<lambda>s. direction (snd s)) sigs) Bullish
           < count_list (map (\<lambda>s. direction (snd s)) sigs) Bearish then Bearish
      else Neutral)"
  by (simp add: cp_overall_def Let_def count_list_map_filter filter_map comp_def)

text \<open>
  C5. For every input the prediction carries seven readings, one per indicator, and its
  consensus is decided by counting their directions: bullish when the bullish ones
  outnumber the bearish ones, bearish when the bearish ones outnumber the bullish ones,
  neutral when the two counts are equal. It is one of the three directions.
\<close>

theorem computePrediction_overall_majority:
  "map fst (signals (computePrediction curPrice hCloses dCloses hHighs hLows)) =
     [''EMA'', ''RSI'', ''MACD'', ''BB'', ''Stoch'', ''ATR'', ''MeanRev''] \<and>
   overall (computePrediction curPrice hCloses dCloses hHighs hLows)
     \<in> {Bullish, Bearish, Neutral} \<and>
   overall (computePrediction curPrice hCloses dCloses hHighs hLows) =
     (if count_list (map (\<lambda>s. direction (snd s))
            (signals (computePrediction curPrice hCloses dCloses hHighs hLows))) Bearish
         < count_list (map (\<lambda>s. direction (snd s))
            (signals (computePrediction curPrice hCloses dCloses hHighs hLows))) Bullish
      then Bullish
      else if count_list (map (\<lambda>s. direction (snd s))
            (signals (computePrediction curPrice hCloses dCloses hHighs hLows))) Bullish
         < count_list (map (\<lambda>s. direction (snd s))
            (signals (computePrediction curPrice hCloses dCloses hHighs hLows))) Bearish
      then Bearish
      else Neutral)"
proof -
  have sig: "signals (computePrediction curPrice hCloses dCloses hHighs hLows) =
      cp_signals curPrice hCloses dCloses hHighs hLows"
    by (simp add: computePrediction_def)
  have ov: "overall (computePrediction curPrice hCloses dCloses hHighs hLows) =
      cp_overall (cp_signals curPrice hCloses dCloses hHighs hLows)"
    by (simp add: computePrediction_def)
  have three: "overall (computePrediction curPrice hCloses dCloses hHighs hLows)
      \<in> {Bullish, Bearish, Neutral}"
    by (cases "overall (computePrediction curPrice hCloses dCloses hHighs hLows)") simp_all
  show ?thesis
    unfolding sig using three cp_signals_keys [of curPrice hCloses dCloses hHighs hLows]
    by (simp add: ov sig cp_overall_count)
qed

theorem computePrediction_overall_majority_witness:
  "map (\<lambda>s. direction (snd s)) (signals (computePrediction 100 [100] [100] [100] [100])) =
     [Bullish, Neutral, Bullish, Neutral, Neutral, Neutral, Bearish] \<and>
   overall (computePrediction 100 [100] [100] [100] [100]) = Bullish"
proof -
  have e: "cp_emaSignal 100 [100] = 0" by code_simp
  have r: "cp_rsiSignal [100] = 0" by code_simp
  have m: "histogram (calcMACD [100]) = 0" by code_simp
  have b: "cp_bbSignal [100] = 0" by (rule cp_bbSignal_short) simp_all
  have s: "cp_stochSignal [100] [100] [100] = 0" by code_simp
  have v: "cp_meanRevSignal 100 [100] = 0" by code_simp
  have d: "map (\<lambda>s. direction (snd s)) (signals (computePrediction 100 [100] [100] [100] [100])) =
     [Bullish, Neutral, Bullish, Neutral, Neutral, Neutral, Bearish]"
    by (simp add: computePrediction_def cp_signals_def Let_def e r m b s v)
  show ?thesis
    using computePrediction_overall_majority [of 100 "[100]" "[100]" "[100]" "[100]"]
    unfolding d by simp
qed

subsection \<open>Directions\<close>

lemma directionOf_computePrediction:
  "directionOf (computePrediction curPrice hCloses dCloses hHighs hLows) name =
     map_option direction (map_of (cp_signals curPrice hCloses dCloses hHighs hLows) name)"
  by (simp add: directionOf_def computePrediction_def)

lemma cp_signals_directions:
  "map (\<lambda>s. (fst s, direction (snd s))) (cp_signals curPrice hCloses dCloses hHighs hLows) =
     [(''EMA'', if cp_emaSignal curPrice hCloses \<ge> 0 then Bullish else Bearish),
      (''RSI'', if cp_rsiSignal hCloses > 0 then Bullish
                else if cp_rsiSignal hCloses < 0 then Bearish else Neutral),
      (''MACD'', if histogram (calcMACD hCloses) \<ge> 0 then Bullish else Bearish),
      (''BB'', if cp_bbSignal hCloses > 0 then Bullish
               else if cp_bbSignal hCloses < 0 then Bearish else Neutral),
      (''Stoch'', if cp_stochSignal hHighs hLows hCloses > 0 then Bullish
                  else if cp_stochSignal hHighs hLows hCloses < 0 then Bearish else Neutral),
      (''ATR'', Neutral),
      (''MeanRev'', if cp_meanRevSignal curPrice dCloses > 0 then Bullish else Bearish)]"
  by (simp add: cp_signals_def Let_def)

lemma map_of_direction:
  "map_option direction (map_of sigs name) =
     map_of (map (\<lambda>s. (fst s, direction (snd s))) sigs) name"
  by (induction sigs) auto

lemma macd_direction_sign:
  "0 < curPrice \<Longrightarrow>
     (histogram (calcMACD hCloses) \<ge> 0) = (cp_macdSignal curPrice hCloses \<ge> 0)"
  by (simp add: cp_macdSignal_def zero_le_divide_iff)

text \<open>
  C2, as the code has it. For a positive price, non-empty hourly series of equal length
  and a non-empty daily series whose mean is not 0: the RSI, Bollinger and stochastic
  directions are the sign of their signal, neutral at exactly 0; the EMA and MACD
  directions are bullish when the signal is positive or 0 and bearish when it is
  negative; the mean-reversion direction is bullish when the signal is positive and
  bearish when it is negative or 0; the ATR direction is always neutral.
\<close>

theorem computePrediction_directions:
  assumes "0 < curPrice"
    and "hCloses \<noteq> []"
    and "length hHighs = length hCloses"
    and "length hLows = length hCloses"
    and "dCloses \<noteq> []"
    and "cp_dailyAvg dCloses \<noteq> 0"
  shows "directionOf (computePrediction curPrice hCloses dCloses hHighs hLows) ''RSI'' =
           Some (spec_signDirection (cp_rsiSignal hCloses)) \<and>
         directionOf (computePrediction curPrice hCloses dCloses hHighs hLows) ''BB'' =
           Some (spec_signDirection (cp_bbSignal hCloses)) \<and>
         directionOf (computePrediction curPrice hCloses dCloses hHighs hLows) ''Stoch'' =
           Some (spec_signDirection (cp_stochSignal hHighs hLows hCloses)) \<and>
         directionOf (computePrediction curPrice hCloses dCloses hHighs hLows) ''EMA'' =
           Some (if cp_emaSignal curPrice hCloses = 0 then Bullish
                 else spec_signDirection (cp_emaSignal curPrice hCloses)) \<and>
         directionOf (computePrediction curPrice hCloses dCloses hHighs hLows) ''MACD'' =
           Some (if cp_macdSignal curPrice hCloses = 0 then Bullish
                 else spec_signDirection (cp_macdSignal curPrice hCloses)) \<and>
         directionOf (computePrediction curPrice hCloses dCloses hHighs hLows) ''MeanRev'' =
           Some (if cp_meanRevSignal curPrice dCloses = 0 then Bearish
                 else spec_signDirection (cp_meanRevSignal curPrice dCloses)) \<and>
         directionOf (computePrediction curPrice hCloses dCloses hHighs hLows) ''ATR'' =
           Some Neutral"
  unfolding directionOf_computePrediction map_of_direction cp_signals_directions
    macd_direction_sign [OF assms(1)]
  by (simp add: spec_signDirection_def)

theorem computePrediction_directions_witness:
  "(0::real) < 16 \<and>
   [1, 2, 3, 4, 5, 6, 7, 8, 9, 10, 11, 12, 13, 14, 15, 16] \<noteq> ([] :: real list) \<and>
   [20] \<noteq> ([] :: real list) \<and> cp_dailyAvg [20] \<noteq> 0 \<and>
   directionOf (computePrediction 16 [1, 2, 3, 4, 5, 6, 7, 8, 9, 10, 11, 12, 13, 14, 15, 16] [20]
      [1, 2, 3, 4, 5, 6, 7, 8, 9, 10, 11, 12, 13, 14, 15, 16]
      [1, 2, 3, 4, 5, 6, 7, 8, 9, 10, 11, 12, 13, 14, 15, 16]) ''RSI'' = Some Bearish \<and>
   directionOf (computePrediction 16 [1, 2, 3, 4, 5, 6, 7, 8, 9, 10, 11, 12, 13, 14, 15, 16] [20]
      [1, 2, 3, 4, 5, 6, 7, 8, 9, 10, 11, 12, 13, 14, 15, 16]
      [1, 2, 3, 4, 5, 6, 7, 8, 9, 10, 11, 12, 13, 14, 15, 16]) ''BB'' = Some Neutral \<and>
   directionOf (computePrediction 16 [1, 2, 3, 4, 5, 6, 7, 8, 9, 10, 11, 12, 13, 14, 15, 16] [20]
      [1, 2, 3, 4, 5, 6, 7, 8, 9, 10, 11, 12, 13, 14, 15, 16]
      [1, 2, 3, 4, 5, 6, 7, 8, 9, 10, 11, 12, 13, 14, 15, 16]) ''Stoch'' = Some Neutral \<and>
   directionOf (computePrediction 16 [1, 2, 3, 4, 5, 6, 7, 8, 9, 10, 11, 12, 13, 14, 15, 16] [20]
      [1, 2, 3, 4, 5, 6, 7, 8, 9, 10, 11, 12, 13, 14, 15, 16]
      [1, 2, 3, 4, 5, 6, 7, 8, 9, 10, 11, 12, 13, 14, 15, 16]) ''EMA'' = Some Bullish \<and>
   directionOf (computePrediction 16 [1, 2, 3, 4, 5, 6, 7, 8, 9, 10, 11, 12, 13, 14, 15, 16] [20]
      [1, 2, 3, 4, 5, 6, 7, 8, 9, 10, 11, 12, 13, 14, 15, 16]
      [1, 2, 3, 4, 5, 6, 7, 8, 9, 10, 11, 12, 13, 14, 15, 16]) ''MACD'' = Some Bullish \<and>
   directionOf (computePrediction 16 [1, 2, 3, 4, 5, 6, 7, 8, 9, 10, 11, 12, 13, 14, 15, 16] [20]
      [1, 2, 3, 4, 5, 6, 7, 8, 9, 10, 11, 12, 13, 14, 15, 16]
      [1, 2, 3, 4, 5, 6, 7, 8, 9, 10, 11, 12, 13, 14, 15, 16]) ''MeanRev'' = Some Bullish \<and>
   directionOf (computePrediction 16 [1, 2, 3, 4, 5, 6, 7, 8, 9, 10, 11, 12, 13, 14, 15, 16] [20]
      [1, 2, 3, 4, 5, 6, 7, 8, 9, 10, 11, 12, 13, 14, 15, 16]
      [1, 2, 3, 4, 5, 6, 7, 8, 9, 10, 11, 12, 13, 14, 15, 16]) ''ATR'' = Some Neutral"
proof -
  have r: "cp_rsiSignal [1, 2, 3, 4, 5, 6, 7, 8, 9, 10, 11, 12, 13, 14, 15, 16] = - 0.3"
    by code_simp
  have e: "0 < cp_emaSignal 16 [1, 2, 3, 4, 5, 6, 7, 8, 9, 10, 11, 12, 13, 14, 15, 16]"
    by code_simp
  have m: "0 < cp_macdSignal 16 [1, 2, 3, 4, 5, 6, 7, 8, 9, 10, 11, 12, 13, 14, 15, 16]"
    by code_simp
  have b: "cp_bbSignal [1, 2, 3, 4, 5, 6, 7, 8, 9, 10, 11, 12, 13, 14, 15, 16] = 0"
    by (rule cp_bbSignal_short) simp_all
  have s: "cp_stochSignal [1, 2, 3, 4, 5, 6, 7, 8, 9, 10, 11, 12, 13, 14, 15, 16]
      [1, 2, 3, 4, 5, 6, 7, 8, 9, 10, 11, 12, 13, 14, 15, 16]
      [1, 2, 3, 4, 5, 6, 7, 8, 9, 10, 11, 12, 13, 14, 15, 16] = 0"
    by code_simp
  have v: "cp_meanRevSignal 16 [20] = 0.2"
    by code_simp
  have avg: "cp_dailyAvg [20] \<noteq> 0" by (simp add: cp_dailyAvg_def)
  show ?thesis
    using computePrediction_directions
        [of 16 "[1, 2, 3, 4, 5, 6, 7, 8, 9, 10, 11, 12, 13, 14, 15, 16]"
            "[1, 2, 3, 4, 5, 6, 7, 8, 9, 10, 11, 12, 13, 14, 15, 16]"
            "[1, 2, 3, 4, 5, 6, 7, 8, 9, 10, 11, 12, 13, 14, 15, 16]" "[20]"] e m avg
    unfolding r b s v by (simp add: spec_signDirection_def)
qed

text \<open>
  C2, as stated, fails. At exactly 0 the EMA, MACD and mean-reversion directions are not
  neutral. With price
  100, one hourly candle at 100 and one daily close at 100, the three signals are 0 and
  the recorded directions are bullish, bullish and bearish.
\<close>

theorem computePrediction_directions_counterexample:
  "cp_emaSignal 100 [100] = 0 \<and>
   spec_signDirection (cp_emaSignal 100 [100]) = Neutral \<and>
   directionOf (computePrediction 100 [100] [100] [100] [100]) ''EMA'' = Some Bullish \<and>
   histogram (calcMACD [100]) = 0 \<and>
   cp_macdSignal 100 [100] = 0 \<and>
   directionOf (computePrediction 100 [100] [100] [100] [100]) ''MACD'' = Some Bullish \<and>
   cp_meanRevSignal 100 [100] = 0 \<and>
   directionOf (computePrediction 100 [100] [100] [100] [100]) ''MeanRev'' = Some Bearish"
  by (simp add: directionOf_def computePrediction_def cp_signals_def cp_emaSignal_def
      cp_macdSignal_def cp_meanRevSignal_def cp_dailyAvg_def calcMACD_def ema_def
      spec_signDirection_def Let_def)

subsection \<open>Forecast distance from the price\<close>

lemma ema_loop_nonneg:
  assumes "0 \<le> k" and "k \<le> 1"
  shows "0 \<le> prev \<Longrightarrow> \<forall>x \<in> set xs. 0 \<le> x \<Longrightarrow> \<forall>y \<in> set (ema_loop k prev xs). 0 \<le> y"
proof (induction xs arbitrary: prev)
  case Nil
  then show ?case by simp
next
  case (Cons x xs)
  from assms Cons.prems have v: "0 \<le> x * k + prev * (1 - k)" by simp
  from Cons.IH [OF v] Cons.prems v show ?case by simp
qed

lemma ema_last_nonneg:
  assumes "data \<noteq> []" and "\<forall>x \<in> set data. 0 \<le> x" and "1 \<le> period"
  shows "0 \<le> last (ema data period)"
proof -
  from assms(1) obtain x xs where d: "data = x # xs" by (cases data) auto
  from assms(3) have k: "0 \<le> 2 / (period + 1)" "2 / (period + 1) \<le> 1" by simp_all
  have "\<forall>y \<in> set (ema_loop (2 / (period + 1)) x xs). 0 \<le> y"
    using ema_loop_nonneg [OF k, of x xs] assms(2) d by simp
  then have all: "\<forall>y \<in> set (ema data period). 0 \<le> y"
    using assms(2) d by (simp add: ema_def)
  have "ema data period \<noteq> []" by (simp add: ema_def d)
  then have "last (ema data period) \<in> set (ema data period)" by (rule last_in_set)
  with all show ?thesis by blast
qed

lemma trueRanges_nonneg:
  assumes "lows ! 0 \<le> highs ! 0"
  shows "\<forall>x \<in> set (trueRanges highs lows closes). 0 \<le> x"
  using assms by (auto simp add: trueRanges_def max_def)

lemma cp_atrPct_nonneg:
  assumes "0 < curPrice" and "hLows ! 0 \<le> hHighs ! 0"
  shows "0 \<le> cp_atrPct curPrice hHighs hLows hCloses"
proof -
  have "trueRanges hHighs hLows hCloses \<noteq> []" by (simp add: trueRanges_def)
  then have "0 \<le> last (ema (trueRanges hHighs hLows hCloses) 14)"
    using trueRanges_nonneg [OF assms(2)] by (intro ema_last_nonneg) simp_all
  with assms(1) show ?thesis by (simp add: cp_atrPct_def calcATR_def Let_def)
qed

lemma scaled_raw_bound:
  fixes r a c cap :: real
  assumes "0 \<le> a" and "0 \<le> c" and "0 \<le> cap"
  shows "\<bar>r * min (a * c) cap\<bar> \<le> cap * \<bar>r\<bar>"
proof -
  from assms have "0 \<le> min (a * c) cap" by simp
  then have "\<bar>min (a * c) cap\<bar> \<le> cap" by simp
  then have "\<bar>r\<bar> * \<bar>min (a * c) cap\<bar> \<le> \<bar>r\<bar> * cap"
    by (intro mult_left_mono) simp_all
  then show ?thesis by (simp add: abs_mult mult.commute)
qed

lemma forecast_ratio:
  fixes p x :: real
  assumes "p \<noteq> 0"
  shows "p * (1 + x) / p - 1 = x"
  using assms by simp

text \<open>
  C1, as the code has it. Take a positive price, non-empty hourly series of equal length
  whose first candle has its high not below its low, and a non-empty daily series whose
  mean is not 0. Then the short forecast is away from the price by at most 0.03 times
  the magnitude of the short raw score, and the long forecast by at most 0.15 times the
  magnitude of the long raw score. So the 3 percent and 15 percent bounds hold whenever
  the raw score concerned has magnitude at most 1; the raw scores themselves are not
  clamped.
\<close>

theorem computePrediction_forecast_bounds:
  assumes "0 < curPrice"
    and "hCloses \<noteq> []"
    and "length hHighs = length hCloses"
    and "length hLows = length hCloses"
    and "dCloses \<noteq> []"
    and "cp_dailyAvg dCloses \<noteq> 0"
    and "hLows ! 0 \<le> hHighs ! 0"
  shows "\<bar>oneMinute (computePrediction curPrice hCloses dCloses hHighs hLows) / curPrice - 1\<bar>
           \<le> 0.03 * \<bar>cp_mRaw curPrice hCloses dCloses hHighs hLows\<bar> \<and>
         \<bar>oneDay (computePrediction curPrice hCloses dCloses hHighs hLows) / curPrice - 1\<bar>
           \<le> 0.15 * \<bar>cp_dRaw curPrice hCloses dCloses hHighs hLows\<bar> \<and>
         (\<bar>cp_mRaw curPrice hCloses dCloses hHighs hLows\<bar> \<le> 1 \<longrightarrow>
            \<bar>oneMinute (computePrediction curPrice hCloses dCloses hHighs hLows) / curPrice - 1\<bar>
              \<le> 0.03) \<and>
         (\<bar>cp_dRaw curPrice hCloses dCloses hHighs hLows\<bar> \<le> 1 \<longrightarrow>
            \<bar>oneDay (computePrediction curPrice hCloses dCloses hHighs hLows) / curPrice - 1\<bar>
              \<le> 0.15)"
proof -
  let ?m = "cp_mRaw curPrice hCloses dCloses hHighs hLows"
  let ?d = "cp_dRaw curPrice hCloses dCloses hHighs hLows"
  let ?a = "cp_atrPct curPrice hHighs hLows hCloses"
  from assms(1) have p: "curPrice \<noteq> 0" by simp
  have a: "0 \<le> ?a" using assms(1) assms(7) by (rule cp_atrPct_nonneg)
  have om: "oneMinute (computePrediction curPrice hCloses dCloses hHighs hLows) / curPrice - 1
      = ?m * min (?a * 8) 0.03"
    unfolding computePrediction_def using forecast_ratio [OF p] by simp
  have od: "oneDay (computePrediction curPrice hCloses dCloses hHighs hLows) / curPrice - 1
      = ?d * min (?a * 80) 0.15"
    unfolding computePrediction_def using forecast_ratio [OF p] by simp
  have bm: "\<bar>?m * min (?a * 8) 0.03\<bar> \<le> 0.03 * \<bar>?m\<bar>"
    using a by (intro scaled_raw_bound) simp_all
  have bd: "\<bar>?d * min (?a * 80) 0.15\<bar> \<le> 0.15 * \<bar>?d\<bar>"
    using a by (intro scaled_raw_bound) simp_all
  have cm: "\<bar>?m\<bar> \<le> 1 \<longrightarrow> \<bar>?m * min (?a * 8) 0.03\<bar> \<le> 0.03"
  proof
    assume "\<bar>?m\<bar> \<le> 1"
    then have "0.03 * \<bar>?m\<bar> \<le> 0.03 * 1" by (intro mult_left_mono) simp_all
    with bm show "\<bar>?m * min (?a * 8) 0.03\<bar> \<le> 0.03" by simp
  qed
  have cd: "\<bar>?d\<bar> \<le> 1 \<longrightarrow> \<bar>?d * min (?a * 80) 0.15\<bar> \<le> 0.15"
  proof
    assume "\<bar>?d\<bar> \<le> 1"
    then have "0.15 * \<bar>?d\<bar> \<le> 0.15 * 1" by (intro mult_left_mono) simp_all
    with bd show "\<bar>?d * min (?a * 80) 0.15\<bar> \<le> 0.15" by simp
  qed
  from bm bd cm cd show ?thesis unfolding om od by blast
qed

theorem computePrediction_forecast_bounds_witness:
  "(0::real) < 100 \<and> [98, 99, 100] \<noteq> ([] :: real list) \<and>
   length [99, 100, 101 :: real] = length [98, 99, 100 :: real] \<and>
   length [97, 98, 99 :: real] = length [98, 99, 100 :: real] \<and>
   [125] \<noteq> ([] :: real list) \<and> cp_dailyAvg [125] \<noteq> 0 \<and>
   [97, 98, 99 :: real] ! 0 \<le> [99, 100, 101] ! 0 \<and>
   \<bar>cp_mRaw 100 [98, 99, 100] [125] [99, 100, 101] [97, 98, 99]\<bar> \<le> 1 \<and>
   \<bar>cp_dRaw 100 [98, 99, 100] [125] [99, 100, 101] [97, 98, 99]\<bar> \<le> 1 \<and>
   \<bar>oneMinute (computePrediction 100 [98, 99, 100] [125] [99, 100, 101] [97, 98, 99]) / 100 - 1\<bar>
     \<le> 0.03 \<and>
   \<bar>oneDay (computePrediction 100 [98, 99, 100] [125] [99, 100, 101] [97, 98, 99]) / 100 - 1\<bar>
     \<le> 0.15"
proof -
  have e: "cp_emaSignal 100 [98, 99, 100] = 639751 / 236040750" by code_simp
  have r: "cp_rsiSignal [98, 99, 100] = 0" by code_simp
  have m: "cp_macdSignal 100 [98, 99, 100] = 126392 / 77000625" by code_simp
  have b: "cp_bbSignal [98, 99, 100] = 0" by (rule cp_bbSignal_short) simp_all
  have s: "cp_stochSignal [99, 100, 101] [97, 98, 99] [98, 99, 100] = 0" by code_simp
  have v: "cp_meanRevSignal 100 [125] = 1 / 5" by code_simp
  have raw: "\<bar>cp_mRaw 100 [98, 99, 100] [125] [99, 100, 101] [97, 98, 99]\<bar> \<le> 1 \<and>
      \<bar>cp_dRaw 100 [98, 99, 100] [125] [99, 100, 101] [97, 98, 99]\<bar> \<le> 1"
    by (simp add: cp_mRaw_def cp_dRaw_def e r m b s v)
  have avg: "cp_dailyAvg [125] \<noteq> 0" by (simp add: cp_dailyAvg_def)
  show ?thesis
    using computePrediction_forecast_bounds
        [of 100 "[98, 99, 100]" "[99, 100, 101]" "[97, 98, 99]" "[125]"] raw avg
    by simp
qed

text \<open>
  C1, as stated, fails. The bounds fail when a raw score exceeds 1 in magnitude. With price 100, one hourly
  candle (close 100, high 104, low 100) and one daily close at 4, the mean-reversion
  signal is -24, the raw scores are -1.2 and -4.8, and the forecasts are 96.4 and 28:
  3.6 percent and 72 percent away from the price.
\<close>

theorem computePrediction_forecast_bounds_counterexample:
  "(0::real) < 100 \<and> [100] \<noteq> ([] :: real list) \<and>
   length [104 :: real] = length [100 :: real] \<and> length [100 :: real] = length [100 :: real] \<and>
   [4] \<noteq> ([] :: real list) \<and>
   oneMinute (computePrediction 100 [100] [4] [104] [100]) = 96.4 \<and>
   \<not> \<bar>oneMinute (computePrediction 100 [100] [4] [104] [100]) / 100 - 1\<bar> \<le> 0.03 \<and>
   oneDay (computePrediction 100 [100] [4] [104] [100]) = 28 \<and>
   \<not> \<bar>oneDay (computePrediction 100 [100] [4] [104] [100]) / 100 - 1\<bar> \<le> 0.15"
proof -
  have e: "cp_emaSignal 100 [100] = 0" by code_simp
  have r: "cp_rsiSignal [100] = 0" by code_simp
  have m: "cp_macdSignal 100 [100] = 0" by code_simp
  have b: "cp_bbSignal [100] = 0" by (rule cp_bbSignal_short) simp_all
  have s: "cp_stochSignal [104] [100] [100] = 0" by code_simp
  have v: "cp_meanRevSignal 100 [4] = - 24" by code_simp
  have a: "cp_atrPct 100 [104] [100] [100] = 0.04" by code_simp
  have om: "oneMinute (computePrediction 100 [100] [4] [104] [100]) = 96.4"
    by (simp add: computePrediction_def cp_mRaw_def e r m b s v a)
  have od: "oneDay (computePrediction 100 [100] [4] [104] [100]) = 28"
    by (simp add: computePrediction_def cp_dRaw_def e r m b s v a)
  show ?thesis unfolding om od by simp
qed

section \<open>Properties of the ledger\<close>

subsection \<open>Frame of \<open>resolveHistory\<close>\<close>

lemma resolveHistory_length:
  "length (resolveHistory now coinData history) = length history"
  by (induction history) simp_all

lemma resolveHistory_nth:
  "i < length history \<Longrightarrow>
   resolveHistory now coinData history ! i = resolveEntry now coinData (history ! i)"
proof (induction history arbitrary: i)
  case Nil
  then show ?case by simp
next
  case (Cons e es)
  then show ?case by (cases i) simp_all
qed

lemma resolveEntry_frame:
  "ts (resolveEntry now coinData e) = ts e \<and>
   coin (resolveEntry now coinData e) = coin e \<and>
   price (resolveEntry now coinData e) = price e \<and>
   pred1m (resolveEntry now coinData e) = pred1m e \<and>
   pred1d (resolveEntry now coinData e) = pred1d e"
  by (simp add: resolveEntry_def resolve1m_def resolve1d_def split: option.splits)

text \<open>
  C10. \<open>resolveHistory\<close> writes only the actual-price and resolved-timestamp fields: the
  ledger keeps its length, and at every position the creation timestamp, the asset id,
  the price at creation and both forecasts are the ones that were there before.
\<close>

theorem resolveHistory_frame:
  "length (resolveHistory now coinData history) = length history \<and>
   (\<forall>i < length history.
      ts (resolveHistory now coinData history ! i) = ts (history ! i) \<and>
      coin (resolveHistory now coinData history ! i) = coin (history ! i) \<and>
      price (resolveHistory now coinData history ! i) = price (history ! i) \<and>
      pred1m (resolveHistory now coinData history ! i) = pred1m (history ! i) \<and>
      pred1d (resolveHistory now coinData history ! i) = pred1d (history ! i))"
  by (simp add: resolveHistory_length resolveHistory_nth resolveEntry_frame)

theorem resolveHistory_frame_witness:
  "(0::nat) < length [new_entry 0 ''BTC'' 100 101 105] \<and>
   length (resolveHistory 61000 [''BTC'' \<mapsto> 102] [new_entry 0 ''BTC'' 100 101 105]) = 1 \<and>
   ts (resolveHistory 61000 [''BTC'' \<mapsto> 102] [new_entry 0 ''BTC'' 100 101 105] ! 0) = 0 \<and>
   coin (resolveHistory 61000 [''BTC'' \<mapsto> 102] [new_entry 0 ''BTC'' 100 101 105] ! 0) = ''BTC'' \<and>
   price (resolveHistory 61000 [''BTC'' \<mapsto> 102] [new_entry 0 ''BTC'' 100 101 105] ! 0) = 100 \<and>
   pred1m (resolveHistory 61000 [''BTC'' \<mapsto> 102] [new_entry 0 ''BTC'' 100 101 105] ! 0) = 101 \<and>
   pred1d (resolveHistory 61000 [''BTC'' \<mapsto> 102] [new_entry 0 ''BTC'' 100 101 105] ! 0) = 105 \<and>
   actual1m (resolveHistory 61000 [''BTC'' \<mapsto> 102] [new_entry 0 ''BTC'' 100 101 105] ! 0) = Some 102"
  using resolveHistory_frame [of 61000 "[''BTC'' \<mapsto> 102]" "[new_entry 0 ''BTC'' 100 101 105]"]
  by (simp add: new_entry_def resolveEntry_def resolve1m_def resolve1d_def tickerPrice_def COINS_def)


subsection \<open>State machine of \<open>resolveHistory\<close>\<close>

lemma resolveEntry_actual1m:
  "actual1m (resolveEntry now coinData e) =
     (if actual1m e = None \<and> now - ts e \<ge> 60000 then tickerPrice coinData (coin e)
      else actual1m e)"
  by (cases "actual1m e"; cases "actual1d e"; cases "tickerPrice coinData (coin e)")
     (simp_all add: resolveEntry_def resolve1m_def resolve1d_def)

lemma resolveEntry_actual1d:
  "actual1d (resolveEntry now coinData e) =
     (if actual1d e = None \<and> now - ts e \<ge> 86400000 then tickerPrice coinData (coin e)
      else actual1d e)"
  by (cases "actual1m e"; cases "actual1d e"; cases "tickerPrice coinData (coin e)")
     (simp_all add: resolveEntry_def resolve1m_def resolve1d_def)

lemma resolveEntry_actual1mTs:
  "actual1mTs (resolveEntry now coinData e) =
     (if actual1m e = None \<and> now - ts e \<ge> 60000 \<and> tickerPrice coinData (coin e) \<noteq> None
      then Some now else actual1mTs e)"
  by (cases "actual1m e"; cases "actual1d e"; cases "tickerPrice coinData (coin e)")
     (simp_all add: resolveEntry_def resolve1m_def resolve1d_def)

lemma resolveEntry_actual1dTs:
  "actual1dTs (resolveEntry now coinData e) =
     (if actual1d e = None \<and> now - ts e \<ge> 86400000 \<and> tickerPrice coinData (coin e) \<noteq> None
      then Some now else actual1dTs e)"
  by (cases "actual1m e"; cases "actual1d e"; cases "tickerPrice coinData (coin e)")
     (simp_all add: resolveEntry_def resolve1m_def resolve1d_def)

lemma resolveCalls_length:
  "length (resolveCalls cs history) = length history"
  by (induction cs history rule: resolveCalls.induct) (simp_all add: resolveHistory_length)

lemma resolveCalls_keeps_actual1m:
  "i < length history \<Longrightarrow> actual1m (history ! i) \<noteq> None \<Longrightarrow>
   actual1m (resolveCalls cs history ! i) = actual1m (history ! i)"
proof (induction cs history rule: resolveCalls.induct)
  case (1 history)
  then show ?case by simp
next
  case (2 now coinData cs history)
  have "actual1m (resolveHistory now coinData history ! i) = actual1m (history ! i)"
    using "2.prems" by (auto simp add: resolveHistory_nth resolveEntry_actual1m)
  with 2 show ?case by (simp add: resolveHistory_length)
qed

lemma resolveCalls_keeps_actual1d:
  "i < length history \<Longrightarrow> actual1d (history ! i) \<noteq> None \<Longrightarrow>
   actual1d (resolveCalls cs history ! i) = actual1d (history ! i)"
proof (induction cs history rule: resolveCalls.induct)
  case (1 history)
  then show ?case by simp
next
  case (2 now coinData cs history)
  have "actual1d (resolveHistory now coinData history ! i) = actual1d (history ! i)"
    using "2.prems" by (auto simp add: resolveHistory_nth resolveEntry_actual1d)
  with 2 show ?case by (simp add: resolveHistory_length)
qed

text \<open>
  C7. Each horizon of each entry is a two-state machine, pending (\<open>actual = null\<close>) and
  resolved. One \<open>resolveHistory\<close> call takes a pending short horizon to resolved exactly
  when at least 60000 ms have passed since \<open>ts\<close> and a ticker price is held for the
  entry's coin, and then stores that price and the clock; likewise the long horizon at
  86400000 ms. With no price the horizon stays pending, so a later call tries again. A
  resolved horizon keeps its value through any run of later calls.
\<close>

theorem resolveHistory_state_machine:
  "\<forall>i < length history.
     (actual1m (history ! i) = None \<longrightarrow>
        (actual1m (resolveHistory now coinData history ! i) \<noteq> None \<longleftrightarrow>
           60000 \<le> now - ts (history ! i) \<and> tickerPrice coinData (coin (history ! i)) \<noteq> None) \<and>
        (60000 \<le> now - ts (history ! i) \<longrightarrow>
           actual1m (resolveHistory now coinData history ! i) = tickerPrice coinData (coin (history ! i))) \<and>
        (actual1m (resolveHistory now coinData history ! i) \<noteq> None \<longrightarrow>
           actual1mTs (resolveHistory now coinData history ! i) = Some now)) \<and>
     (actual1d (history ! i) = None \<longrightarrow>
        (actual1d (resolveHistory now coinData history ! i) \<noteq> None \<longleftrightarrow>
           86400000 \<le> now - ts (history ! i) \<and> tickerPrice coinData (coin (history ! i)) \<noteq> None) \<and>
        (86400000 \<le> now - ts (history ! i) \<longrightarrow>
           actual1d (resolveHistory now coinData history ! i) = tickerPrice coinData (coin (history ! i))) \<and>
        (actual1d (resolveHistory now coinData history ! i) \<noteq> None \<longrightarrow>
           actual1dTs (resolveHistory now coinData history ! i) = Some now)) \<and>
     (actual1m (history ! i) \<noteq> None \<longrightarrow>
        actual1m (resolveCalls cs history ! i) = actual1m (history ! i)) \<and>
     (actual1d (history ! i) \<noteq> None \<longrightarrow>
        actual1d (resolveCalls cs history ! i) = actual1d (history ! i))"
proof (intro allI impI)
  fix i assume i: "i < length history"
  let ?e = "history ! i"
  have nth: "resolveHistory now coinData history ! i = resolveEntry now coinData ?e"
    using i by (rule resolveHistory_nth)
  have m: "actual1m ?e = None \<longrightarrow>
        (actual1m (resolveEntry now coinData ?e) \<noteq> None \<longleftrightarrow>
           60000 \<le> now - ts ?e \<and> tickerPrice coinData (coin ?e) \<noteq> None) \<and>
        (60000 \<le> now - ts ?e \<longrightarrow>
           actual1m (resolveEntry now coinData ?e) = tickerPrice coinData (coin ?e)) \<and>
        (actual1m (resolveEntry now coinData ?e) \<noteq> None \<longrightarrow>
           actual1mTs (resolveEntry now coinData ?e) = Some now)"
    by (simp add: resolveEntry_actual1m resolveEntry_actual1mTs)
  have d: "actual1d ?e = None \<longrightarrow>
        (actual1d (resolveEntry now coinData ?e) \<noteq> None \<longleftrightarrow>
           86400000 \<le> now - ts ?e \<and> tickerPrice coinData (coin ?e) \<noteq> None) \<and>
        (86400000 \<le> now - ts ?e \<longrightarrow>
           actual1d (resolveEntry now coinData ?e) = tickerPrice coinData (coin ?e)) \<and>
        (actual1d (resolveEntry now coinData ?e) \<noteq> None \<longrightarrow>
           actual1dTs (resolveEntry now coinData ?e) = Some now)"
    by (simp add: resolveEntry_actual1d resolveEntry_actual1dTs)
  have km: "actual1m ?e \<noteq> None \<longrightarrow> actual1m (resolveCalls cs history ! i) = actual1m ?e"
    using i by (simp add: resolveCalls_keeps_actual1m)
  have kd: "actual1d ?e \<noteq> None \<longrightarrow> actual1d (resolveCalls cs history ! i) = actual1d ?e"
    using i by (simp add: resolveCalls_keeps_actual1d)
  from m d km kd show
    "(actual1m ?e = None \<longrightarrow>
        (actual1m (resolveHistory now coinData history ! i) \<noteq> None \<longleftrightarrow>
           60000 \<le> now - ts ?e \<and> tickerPrice coinData (coin ?e) \<noteq> None) \<and>
        (60000 \<le> now - ts ?e \<longrightarrow>
           actual1m (resolveHistory now coinData history ! i) = tickerPrice coinData (coin ?e)) \<and>
        (actual1m (resolveHistory now coinData history ! i) \<noteq> None \<longrightarrow>
           actual1mTs (resolveHistory now coinData history ! i) = Some now)) \<and>
     (actual1d ?e = None \<longrightarrow>
        (actual1d (resolveHistory now coinData history ! i) \<noteq> None \<longleftrightarrow>
           86400000 \<le> now - ts ?e \<and> tickerPrice coinData (coin ?e) \<noteq> None) \<and>
        (86400000 \<le> now - ts ?e \<longrightarrow>
           actual1d (resolveHistory now coinData history ! i) = tickerPrice coinData (coin ?e)) \<and>
        (actual1d (resolveHistory now coinData history ! i) \<noteq> None \<longrightarrow>
           actual1dTs (resolveHistory now coinData history ! i) = Some now)) \<and>
     (actual1m ?e \<noteq> None \<longrightarrow> actual1m (resolveCalls cs history ! i) = actual1m ?e) \<and>
     (actual1d ?e \<noteq> None \<longrightarrow> actual1d (resolveCalls cs history ! i) = actual1d ?e)"
    unfolding nth by blast
qed


theorem resolveHistory_state_machine_witness:
  "(1::nat) < length [new_entry 0 ''BTC'' 100 101 105,
                      (new_entry 0 ''ETH'' 10 11 12)\<lparr>actual1m := Some 9, actual1d := Some 8\<rparr>] \<and>
   actual1m (new_entry 0 ''BTC'' 100 101 105) = None \<and>
   actual1d (new_entry 0 ''BTC'' 100 101 105) = None \<and>
   actual1m (resolveHistory 61000 [''BTC'' \<mapsto> 102, ''ETH'' \<mapsto> 20]
      [new_entry 0 ''BTC'' 100 101 105,
       (new_entry 0 ''ETH'' 10 11 12)\<lparr>actual1m := Some 9, actual1d := Some 8\<rparr>] ! 0) = Some 102 \<and>
   actual1mTs (resolveHistory 61000 [''BTC'' \<mapsto> 102, ''ETH'' \<mapsto> 20]
      [new_entry 0 ''BTC'' 100 101 105,
       (new_entry 0 ''ETH'' 10 11 12)\<lparr>actual1m := Some 9, actual1d := Some 8\<rparr>] ! 0) = Some 61000 \<and>
   actual1d (resolveHistory 61000 [''BTC'' \<mapsto> 102, ''ETH'' \<mapsto> 20]
      [new_entry 0 ''BTC'' 100 101 105,
       (new_entry 0 ''ETH'' 10 11 12)\<lparr>actual1m := Some 9, actual1d := Some 8\<rparr>] ! 0) = None \<and>
   actual1m (resolveCalls [(61000, [''BTC'' \<mapsto> 102, ''ETH'' \<mapsto> 20])]
      [new_entry 0 ''BTC'' 100 101 105,
       (new_entry 0 ''ETH'' 10 11 12)\<lparr>actual1m := Some 9, actual1d := Some 8\<rparr>] ! 1) = Some 9 \<and>
   actual1d (resolveCalls [(61000, [''BTC'' \<mapsto> 102, ''ETH'' \<mapsto> 20])]
      [new_entry 0 ''BTC'' 100 101 105,
       (new_entry 0 ''ETH'' 10 11 12)\<lparr>actual1m := Some 9, actual1d := Some 8\<rparr>] ! 1) = Some 8"
  using resolveHistory_state_machine
    [of "[new_entry 0 ''BTC'' 100 101 105,
          (new_entry 0 ''ETH'' 10 11 12)\<lparr>actual1m := Some 9, actual1d := Some 8\<rparr>]"
        61000 "[''BTC'' \<mapsto> 102, ''ETH'' \<mapsto> 20]"
        "[(61000, [''BTC'' \<mapsto> 102, ''ETH'' \<mapsto> 20])]"]
  by (simp add: new_entry_def resolveEntry_def resolve1m_def resolve1d_def tickerPrice_def COINS_def)

subsection \<open>Idempotence of \<open>resolveHistory\<close>\<close>

lemma resolveEntry_idem:
  "resolveEntry now coinData (resolveEntry now coinData e) = resolveEntry now coinData e"
  by (cases "actual1m e"; cases "actual1d e"; cases "tickerPrice coinData (coin e)")
     (simp_all add: resolveEntry_def resolve1m_def resolve1d_def)

lemma resolveHistory_idem:
  "resolveHistory now coinData (resolveHistory now coinData history) =
   resolveHistory now coinData history"
  by (induction history) (simp_all add: resolveEntry_idem)

text \<open>
  C8. Two \<open>resolveHistory\<close> calls in succession with the same clock reading and the same
  ticker data leave the ledger as the first call left it. A horizon whose actual is
  already set keeps its actual and its resolved timestamp under any later call, whatever
  the clock and the ticker data are then.
\<close>

theorem resolveHistory_idempotent:
  "resolveHistory now coinData (resolveHistory now coinData history) =
     resolveHistory now coinData history \<and>
   (\<forall>i < length history.
      (actual1m (history ! i) \<noteq> None \<longrightarrow>
         actual1m (resolveHistory now' coinData' history ! i) = actual1m (history ! i) \<and>
         actual1mTs (resolveHistory now' coinData' history ! i) = actual1mTs (history ! i)) \<and>
      (actual1d (history ! i) \<noteq> None \<longrightarrow>
         actual1d (resolveHistory now' coinData' history ! i) = actual1d (history ! i) \<and>
         actual1dTs (resolveHistory now' coinData' history ! i) = actual1dTs (history ! i)))"
  by (auto simp add: resolveHistory_idem resolveHistory_nth resolveEntry_actual1m
        resolveEntry_actual1d resolveEntry_actual1mTs resolveEntry_actual1dTs)

theorem resolveHistory_idempotent_witness:
  "(0::nat) < length [(new_entry 0 ''BTC'' 100 101 105)\<lparr>actual1m := Some 102, actual1mTs := Some 61000\<rparr>] \<and>
   actual1m ((new_entry 0 ''BTC'' 100 101 105)\<lparr>actual1m := Some 102, actual1mTs := Some 61000\<rparr>) \<noteq> None \<and>
   actual1m (resolveHistory 90000000 [''BTC'' \<mapsto> 110]
     [(new_entry 0 ''BTC'' 100 101 105)\<lparr>actual1m := Some 102, actual1mTs := Some 61000\<rparr>] ! 0) = Some 102 \<and>
   actual1mTs (resolveHistory 90000000 [''BTC'' \<mapsto> 110]
     [(new_entry 0 ''BTC'' 100 101 105)\<lparr>actual1m := Some 102, actual1mTs := Some 61000\<rparr>] ! 0) = Some 61000 \<and>
   actual1d (resolveHistory 90000000 [''BTC'' \<mapsto> 110]
     [(new_entry 0 ''BTC'' 100 101 105)\<lparr>actual1m := Some 102, actual1mTs := Some 61000\<rparr>] ! 0) = Some 110 \<and>
   resolveHistory 90000000 [''BTC'' \<mapsto> 110] (resolveHistory 90000000 [''BTC'' \<mapsto> 110]
     [(new_entry 0 ''BTC'' 100 101 105)\<lparr>actual1m := Some 102, actual1mTs := Some 61000\<rparr>]) =
   resolveHistory 90000000 [''BTC'' \<mapsto> 110]
     [(new_entry 0 ''BTC'' 100 101 105)\<lparr>actual1m := Some 102, actual1mTs := Some 61000\<rparr>]"
  using resolveHistory_idempotent
    [of 90000000 "[''BTC'' \<mapsto> 110]"
        "[(new_entry 0 ''BTC'' 100 101 105)\<lparr>actual1m := Some 102, actual1mTs := Some 61000\<rparr>]"
        90000000 "[''BTC'' \<mapsto> 110]"]
  by (simp add: new_entry_def resolveEntry_def resolve1m_def resolve1d_def tickerPrice_def COINS_def)


subsection \<open>\<open>recordPrediction\<close>: spacing and capacity\<close>

lemma find_rev_filter:
  "List.find P (rev xs) = (if filter P xs = [] then None else Some (last (filter P xs)))"
  by (induction xs rule: rev_induct) simp_all

lemma push_slice_last:
  "(let h' = history @ [e]
    in if length h' > MAX_HISTORY then slice_last MAX_HISTORY h' else h') =
   drop (length history + 1 - 100) history @ [e]"
  by (simp add: Let_def MAX_HISTORY_def slice_last_def)

lemma recordPrediction_cases:
  "recordPrediction now history coinId pr p1m p1d =
     (if filter (\<lambda>h. coin h = coinId) history \<noteq> [] \<and>
         now - ts (last (filter (\<lambda>h. coin h = coinId) history)) < 55000
      then history
      else drop (length history + 1 - 100) history @ [new_entry now coinId pr p1m p1d])"
  unfolding recordPrediction_def push_slice_last find_rev_filter by simp

text \<open>
  C6. The most recent entry of an asset is the last element of the ledger that carries
  its id. When there is one and it is younger than 55000 ms, \<open>recordPrediction\<close> returns
  the ledger as it was. Otherwise the result is the ledger with one entry appended, whose
  four actual and resolved-at fields are \<open>null\<close>, after dropping from the front what
  exceeds 100 entries, so the oldest go first. A ledger of at most 100 entries has at
  most 100 entries afterwards, and a ledger that received the entry has at most 100
  whatever its size was.
\<close>

theorem recordPrediction_spacing_capacity:
  "(filter (\<lambda>h. coin h = coinId) history \<noteq> [] \<and>
    now - ts (last (filter (\<lambda>h. coin h = coinId) history)) < 55000 \<longrightarrow>
      recordPrediction now history coinId pr p1m p1d = history) \<and>
   (filter (\<lambda>h. coin h = coinId) history = [] \<or>
    55000 \<le> now - ts (last (filter (\<lambda>h. coin h = coinId) history)) \<longrightarrow>
      recordPrediction now history coinId pr p1m p1d =
        drop (length history + 1 - 100) history @ [new_entry now coinId pr p1m p1d] \<and>
      length (recordPrediction now history coinId pr p1m p1d) \<le> 100 \<and>
      length (recordPrediction now history coinId pr p1m p1d) = min 100 (length history + 1)) \<and>
   actual1m (new_entry now coinId pr p1m p1d) = None \<and>
   actual1mTs (new_entry now coinId pr p1m p1d) = None \<and>
   actual1d (new_entry now coinId pr p1m p1d) = None \<and>
   actual1dTs (new_entry now coinId pr p1m p1d) = None \<and>
   (length history \<le> 100 \<longrightarrow> length (recordPrediction now history coinId pr p1m p1d) \<le> 100)"
proof -
  have skip: "filter (\<lambda>h. coin h = coinId) history \<noteq> [] \<and>
      now - ts (last (filter (\<lambda>h. coin h = coinId) history)) < 55000 \<longrightarrow>
      recordPrediction now history coinId pr p1m p1d = history"
    by (simp add: recordPrediction_cases)
  have push: "filter (\<lambda>h. coin h = coinId) history = [] \<or>
      55000 \<le> now - ts (last (filter (\<lambda>h. coin h = coinId) history)) \<longrightarrow>
      recordPrediction now history coinId pr p1m p1d =
        drop (length history + 1 - 100) history @ [new_entry now coinId pr p1m p1d]"
    by (auto simp add: recordPrediction_cases)
  have len: "length (drop (length history + 1 - 100) history @ [new_entry now coinId pr p1m p1d])
      = min 100 (length history + 1)"
    by simp
  have fields: "actual1m (new_entry now coinId pr p1m p1d) = None \<and>
      actual1mTs (new_entry now coinId pr p1m p1d) = None \<and>
      actual1d (new_entry now coinId pr p1m p1d) = None \<and>
      actual1dTs (new_entry now coinId pr p1m p1d) = None"
    by (simp add: new_entry_def)
  have cap: "length history \<le> 100 \<longrightarrow> length (recordPrediction now history coinId pr p1m p1d) \<le> 100"
    by (auto simp add: recordPrediction_cases)
  from skip push len fields cap show ?thesis by auto
qed


theorem recordPrediction_spacing_capacity_witness:
  "(filter (\<lambda>h. coin h = ''BTC'') [new_entry 0 ''BTC'' 100 101 105] \<noteq> [] \<and>
    30000 - ts (last (filter (\<lambda>h. coin h = ''BTC'') [new_entry 0 ''BTC'' 100 101 105])) < 55000 \<and>
    recordPrediction 30000 [new_entry 0 ''BTC'' 100 101 105] ''BTC'' 102 103 104 =
      [new_entry 0 ''BTC'' 100 101 105]) \<and>
   (55000 \<le> 60000 - ts (last (filter (\<lambda>h. coin h = ''BTC'') [new_entry 0 ''BTC'' 100 101 105])) \<and>
    recordPrediction 60000 [new_entry 0 ''BTC'' 100 101 105] ''BTC'' 102 103 104 =
      [new_entry 0 ''BTC'' 100 101 105, new_entry 60000 ''BTC'' 102 103 104]) \<and>
   (filter (\<lambda>h. coin h = ''ETH'') (replicate 100 (new_entry 0 ''BTC'' 100 101 105)) = [] \<and>
    length (replicate 100 (new_entry 0 ''BTC'' 100 101 105)) \<le> 100 \<and>
    recordPrediction 1000 (replicate 100 (new_entry 0 ''BTC'' 100 101 105)) ''ETH'' 10 11 12 =
      replicate 99 (new_entry 0 ''BTC'' 100 101 105) @ [new_entry 1000 ''ETH'' 10 11 12])"
  using recordPrediction_spacing_capacity
      [of "''BTC''" "[new_entry 0 ''BTC'' 100 101 105]" 30000 102 103 104]
    recordPrediction_spacing_capacity
      [of "''BTC''" "[new_entry 0 ''BTC'' 100 101 105]" 60000 102 103 104]
    recordPrediction_spacing_capacity
      [of "''ETH''" "replicate 100 (new_entry 0 ''BTC'' 100 101 105)" 1000 10 11 12]
  by (simp add: new_entry_def)

subsection \<open>\<open>getHistoryStats\<close>\<close>

lemma statsLoop_hit_bounds:
  "hit \<le> fst (statsLoop pred actual hs (hit, totalErr)) \<and>
   fst (statsLoop pred actual hs (hit, totalErr)) \<le> hit + length hs"
proof (induction hs arbitrary: hit totalErr)
  case Nil
  then show ?case by simp
next
  case (Cons h hs)
  let ?err = "totalErr + \<bar>pred h - toNumber (actual h)\<bar> / price h * 100"
  show ?case
  proof (cases "dirOf (pred h) (price h) = dirOf (toNumber (actual h)) (price h)")
    case True
    with Cons.IH [of "hit + 1" ?err] show ?thesis by simp
  next
    case False
    with Cons.IH [of hit ?err] show ?thesis by simp
  qed
qed

lemma accuracy_range:
  assumes "0 < n" and "hit \<le> n"
  shows "0 \<le> real hit / real n * 100 \<and> real hit / real n * 100 \<le> 100"
proof -
  from assms have le: "real hit / real n \<le> 1" by simp
  have ge: "0 \<le> real hit / real n" by simp
  from le have "real hit / real n * 100 \<le> 1 * 100"
    by (rule mult_right_mono) simp
  with ge show ?thesis by simp
qed

text \<open>
  C9. For every ledger and every filter, the resolved count of a horizon is the number
  of entries, among those the filter selects (all of them for \<open>ALL\<close>, those of the
  asset otherwise), whose actual for that horizon is not \<open>null\<close>. The horizon's hit
  rate is \<open>null\<close> exactly when that count is zero, and so is its mean error; a hit rate
  that is not \<open>null\<close> lies between 0 and 100.
\<close>

theorem getHistoryStats_null_and_range:
  "resolved1m (getHistoryStats history flt) =
     length (filter (\<lambda>h. actual1m h \<noteq> None)
       (if flt = ''ALL'' then history else filter (\<lambda>h. coin h = flt) history)) \<and>
   resolved1d (getHistoryStats history flt) =
     length (filter (\<lambda>h. actual1d h \<noteq> None)
       (if flt = ''ALL'' then history else filter (\<lambda>h. coin h = flt) history)) \<and>
   (accuracy1m (getHistoryStats history flt) = None \<longleftrightarrow> resolved1m (getHistoryStats history flt) = 0) \<and>
   (avgErr1m (getHistoryStats history flt) = None \<longleftrightarrow> resolved1m (getHistoryStats history flt) = 0) \<and>
   (accuracy1d (getHistoryStats history flt) = None \<longleftrightarrow> resolved1d (getHistoryStats history flt) = 0) \<and>
   (avgErr1d (getHistoryStats history flt) = None \<longleftrightarrow> resolved1d (getHistoryStats history flt) = 0) \<and>
   (\<forall>a. accuracy1m (getHistoryStats history flt) = Some a \<longrightarrow> 0 \<le> a \<and> a \<le> 100) \<and>
   (\<forall>a. accuracy1d (getHistoryStats history flt) = Some a \<longrightarrow> 0 \<le> a \<and> a \<le> 100)"
proof -
  define items where "items = (if flt = ''ALL'' then history else filter (\<lambda>h. coin h = flt) history)"
  define res1m where "res1m = filter (\<lambda>h. actual1m h \<noteq> None) items"
  define res1d where "res1d = filter (\<lambda>h. actual1d h \<noteq> None) items"
  define l1m where "l1m = statsLoop pred1m actual1m res1m (0, 0)"
  define l1d where "l1d = statsLoop pred1d actual1d res1d (0, 0)"
  have m: "fst l1m \<le> length res1m"
    using statsLoop_hit_bounds [of 0 pred1m actual1m res1m 0] by (simp add: l1m_def)
  have d: "fst l1d \<le> length res1d"
    using statsLoop_hit_bounds [of 0 pred1d actual1d res1d 0] by (simp add: l1d_def)
  have unfold: "getHistoryStats history flt =
      \<lparr> total = length items, resolved1m = length res1m, resolved1d = length res1d,
        accuracy1m = (if length res1m > 0 then Some (real (fst l1m) / real (length res1m) * 100) else None),
        accuracy1d = (if length res1d > 0 then Some (real (fst l1d) / real (length res1d) * 100) else None),
        avgErr1m = (if length res1m > 0 then Some (snd l1m / real (length res1m)) else None),
        avgErr1d = (if length res1d > 0 then Some (snd l1d / real (length res1d)) else None) \<rparr>"
    by (simp add: getHistoryStats_def Let_def items_def res1m_def res1d_def l1m_def l1d_def
        split: prod.splits)
  show ?thesis
    unfolding unfold using accuracy_range [OF _ m] accuracy_range [OF _ d]
    by (auto simp add: res1m_def res1d_def items_def)
qed

theorem getHistoryStats_null_and_range_witness:
  "accuracy1m (getHistoryStats
      [(new_entry 0 ''BTC'' 100 101 105)\<lparr>actual1m := Some 102, actual1mTs := Some 61000\<rparr>,
       new_entry 70000 ''ETH'' 10 11 12] ''ALL'') = Some 100 \<and>
   resolved1m (getHistoryStats
      [(new_entry 0 ''BTC'' 100 101 105)\<lparr>actual1m := Some 102, actual1mTs := Some 61000\<rparr>,
       new_entry 70000 ''ETH'' 10 11 12] ''ALL'') = 1 \<and>
   accuracy1d (getHistoryStats
      [(new_entry 0 ''BTC'' 100 101 105)\<lparr>actual1m := Some 102, actual1mTs := Some 61000\<rparr>,
       new_entry 70000 ''ETH'' 10 11 12] ''ALL'') = None \<and>
   resolved1d (getHistoryStats
      [(new_entry 0 ''BTC'' 100 101 105)\<lparr>actual1m := Some 102, actual1mTs := Some 61000\<rparr>,
       new_entry 70000 ''ETH'' 10 11 12] ''ALL'') = 0 \<and>
   accuracy1m (getHistoryStats
      [(new_entry 0 ''BTC'' 100 101 105)\<lparr>actual1m := Some 102, actual1mTs := Some 61000\<rparr>,
       new_entry 70000 ''ETH'' 10 11 12] ''ETH'') = None \<and>
   resolved1m (getHistoryStats
      [(new_entry 0 ''BTC'' 100 101 105)\<lparr>actual1m := Some 102, actual1mTs := Some 61000\<rparr>,
       new_entry 70000 ''ETH'' 10 11 12] ''ETH'') = 0 \<and>
   accuracy1m (getHistoryStats [] ''ALL'') = None \<and>
   resolved1m (getHistoryStats [] ''ALL'') = 0"
  using getHistoryStats_null_and_range
    [of "[(new_entry 0 ''BTC'' 100 101 105)\<lparr>actual1m := Some 102, actual1mTs := Some 61000\<rparr>,
          new_entry 70000 ''ETH'' 10 11 12]" "''ALL''"]
    getHistoryStats_null_and_range
    [of "[(new_entry 0 ''BTC'' 100 101 105)\<lparr>actual1m := Some 102, actual1mTs := Some 61000\<rparr>,
          new_entry 70000 ''ETH'' 10 11 12]" "''ETH''"]
    getHistoryStats_null_and_range [of "[]" "''ALL''"]
  by (simp add: getHistoryStats_def new_entry_def dirOf_def toNumber_def)

end
